theory Spec2Isabelle
  imports Complex_Main "HOL-Library.AList"
begin

section \<open>Webster signal-timing optimizer (traffic\_optimizer.py)\<close>

text \<open>
  The embedding follows \<^verbatim>\<open>TrafficSignalOptimizer\<close> of \<^verbatim>\<open>traffic_optimizer.py\<close>.
  Python dictionaries are association lists in insertion order (a well-formed dictionary
  has distinct keys); a store \<^verbatim>\<open>d[k] = v\<close> is \<^const>\<open>AList.update\<close>, which replaces
  in place or appends, as Python does. Python integers are \<^typ>\<open>int\<close>. Python floats are
  idealised as \<^typ>\<open>real\<close>: the arithmetic is exact, so rounding error, overflow to
  infinity and NaN of IEEE doubles are outside the model. Every operation of the source
  that can raise is a branch returning \<open>Inl\<close>.
\<close>

subsection \<open>Python primitives\<close>

datatype py_error = ZeroDivisionError | KeyError

text \<open>True division \<^verbatim>\<open>a / b\<close>: raises on a zero divisor.\<close>

definition py_truediv :: "real \<Rightarrow> real \<Rightarrow> py_error + real" where
  "py_truediv a b = (if b = 0 then Inl ZeroDivisionError else Inr (a / b))"

text \<open>\<^verbatim>\<open>int(x)\<close> on a float truncates towards zero.\<close>

definition py_int :: "real \<Rightarrow> int" where
  "py_int x = (if 0 \<le> x then \<lfloor>x\<rfloor> else \<lceil>x\<rceil>)"

text \<open>\<^verbatim>\<open>round(x)\<close> on a float rounds to the nearest integer, ties to the even one.\<close>

definition py_round :: "real \<Rightarrow> int" where
  "py_round x =
     (let f = \<lfloor>x\<rfloor>; d = x - of_int f
      in if d < 1 / 2 then f
         else if 1 / 2 < d then f + 1
         else if even f then f else f + 1)"

text \<open>\<^verbatim>\<open>round(x, n)\<close>: the nearest multiple of \<open>10\<^sup>-\<^sup>n\<close>.\<close>

definition py_round_ndigits :: "real \<Rightarrow> nat \<Rightarrow> real" where
  "py_round_ndigits x n = of_int (py_round (x * 10 ^ n)) / 10 ^ n"

text \<open>Subscription \<^verbatim>\<open>d[k]\<close> raises \<^verbatim>\<open>KeyError\<close> on a missing key.\<close>

definition py_getitem :: "('k \<times> 'v) list \<Rightarrow> 'k \<Rightarrow> py_error + 'v" where
  "py_getitem d k = (case map_of d k of None \<Rightarrow> Inl KeyError | Some v \<Rightarrow> Inr v)"

text \<open>\<^verbatim>\<open>d.get(k, default)\<close>.\<close>

definition py_get :: "('k \<times> 'v) list \<Rightarrow> 'k \<Rightarrow> 'v \<Rightarrow> 'v" where
  "py_get d k dflt = (case map_of d k of None \<Rightarrow> dflt | Some v \<Rightarrow> v)"

subsection \<open>The optimizer object\<close>

record TrafficSignalOptimizer =
  weights :: "(string \<times> real) list"
  saturation_flow :: real
  lost_time_per_phase :: int
  min_green_time :: int
  min_cycle_time :: int
  max_cycle_time :: int

text \<open>The constructor \<^verbatim>\<open>__init__\<close>.\<close>

definition TrafficSignalOptimizer_init :: TrafficSignalOptimizer where
  "TrafficSignalOptimizer_init =
     \<lparr> weights = [(''car'', 1), (''motorcycle'', 1 / 2), (''bus'', 3), (''truck'', 5 / 2)],
       saturation_flow = 30,
       lost_time_per_phase = 4,
       min_green_time = 10,
       min_cycle_time = 60,
       max_cycle_time = 150 \<rparr>"

type_synonym counts = "(string \<times> int) list"
type_synonym lane_counts = "(string \<times> counts) list"

subsection \<open>calculate\_traffic\_density\<close>

text \<open>The loop over \<^verbatim>\<open>counts.items()\<close>, with the running \<^verbatim>\<open>density\<close>.\<close>

fun density_loop :: "TrafficSignalOptimizer \<Rightarrow> counts \<Rightarrow> real \<Rightarrow> real" where
  "density_loop self [] density = density"
| "density_loop self ((vehicle_type, count) # rest) density =
     (let weight = py_get (weights self) vehicle_type 1
      in density_loop self rest (density + of_int count * weight))"

definition calculate_traffic_density :: "TrafficSignalOptimizer \<Rightarrow> counts \<Rightarrow> real" where
  "calculate_traffic_density self cs = density_loop self cs 0"

subsection \<open>optimize\_signals\<close>

record lane_datum =
  ld_pcu :: real
  ld_y :: real

record lane_timing =
  green_time :: int
  red_time :: int
  yellow_time :: int
  density_score :: real
  flow_ratio :: real

record results =
  cycle_time :: int
  lanes :: "(string \<times> lane_timing) list"
  saturation_degree :: real
  actual_cycle_time :: int

text \<open>
  Step 1, the loop over \<^verbatim>\<open>lane_counts.items()\<close>: the state is \<^verbatim>\<open>lane_data\<close> and
  the running sum \<^verbatim>\<open>Y\<close>.
\<close>

fun flow_loop ::
  "TrafficSignalOptimizer \<Rightarrow> lane_counts \<Rightarrow> (string \<times> lane_datum) list \<times> real
     \<Rightarrow> py_error + (string \<times> lane_datum) list \<times> real" where
  "flow_loop self [] (lane_data, Y) = Inr (lane_data, Y)"
| "flow_loop self ((lane, cs) # rest) (lane_data, Y) =
     (let pcu_count = calculate_traffic_density self cs
      in case py_truediv pcu_count (saturation_flow self) of
           Inl e \<Rightarrow> Inl e
         | Inr yv \<Rightarrow>
             flow_loop self rest
               (AList.update lane \<lparr> ld_pcu = pcu_count, ld_y = yv \<rparr> lane_data, Y + yv))"

text \<open>The total lost time \<^verbatim>\<open>L = self.lost_time_per_phase * 4\<close>.\<close>

definition total_lost_time :: "TrafficSignalOptimizer \<Rightarrow> int" where
  "total_lost_time self = lost_time_per_phase self * 4"

text \<open>
  Step 2, the cycle length: the clamp of \<^verbatim>\<open>Y\<close>, Webster's formula, and the clamp to
  the configured limits.
\<close>

definition optimal_cycle :: "TrafficSignalOptimizer \<Rightarrow> real \<Rightarrow> py_error + real" where
  "optimal_cycle self Y =
     (let L = total_lost_time self;
          Y_clamped = min Y (95 / 100)
      in if 0 < Y_clamped then py_truediv (15 / 10 * of_int L + 5) (1 - Y_clamped)
         else Inr (of_int (min_cycle_time self)))"

definition clamp_cycle :: "TrafficSignalOptimizer \<Rightarrow> real \<Rightarrow> int" where
  "clamp_cycle self oc =
     max (min_cycle_time self) (min (max_cycle_time self) (py_int oc))"

text \<open>The raw green of one lane: the proportional share, or the fixed quarter.\<close>

definition raw_green :: "real \<Rightarrow> real \<Rightarrow> int \<Rightarrow> py_error + real" where
  "raw_green yv Y total_effective_green =
     (if 0 < Y then
        (case py_truediv yv Y of
           Inl e \<Rightarrow> Inl e
         | Inr q \<Rightarrow> Inr (q * of_int total_effective_green))
      else py_truediv (of_int total_effective_green) 4)"

text \<open>The entry stored in \<^verbatim>\<open>results['lanes'][lane]\<close>.\<close>

definition lane_entry ::
  "TrafficSignalOptimizer \<Rightarrow> int \<Rightarrow> lane_datum \<Rightarrow> real \<Rightarrow> lane_timing" where
  "lane_entry self cyc d raw =
     (let green = max (min_green_time self) (py_round raw);
          red = cyc - green - lost_time_per_phase self
      in \<lparr> green_time = green,
           red_time = red,
           yellow_time = lost_time_per_phase self,
           density_score = ld_pcu d,
           flow_ratio = py_round_ndigits (ld_y d) 3 \<rparr>)"

text \<open>
  Step 4, the loop over \<^verbatim>\<open>lane_counts.keys()\<close>: the state is
  \<^verbatim>\<open>results['lanes']\<close> and \<^verbatim>\<open>allocated_green_sum\<close>.
\<close>

fun alloc_loop ::
  "TrafficSignalOptimizer \<Rightarrow> (string \<times> lane_datum) list \<Rightarrow> real \<Rightarrow> int \<Rightarrow> int
     \<Rightarrow> string list \<Rightarrow> (string \<times> lane_timing) list \<times> int
     \<Rightarrow> py_error + (string \<times> lane_timing) list \<times> int" where
  "alloc_loop self lane_data Y cyc teg [] (ls, allocated_green_sum) =
     Inr (ls, allocated_green_sum)"
| "alloc_loop self lane_data Y cyc teg (lane # rest) (ls, allocated_green_sum) =
     (case py_getitem lane_data lane of
        Inl e \<Rightarrow> Inl e
      | Inr d \<Rightarrow>
          (case raw_green (ld_y d) Y teg of
             Inl e \<Rightarrow> Inl e
           | Inr raw \<Rightarrow>
               (let t = lane_entry self cyc d raw
                in alloc_loop self lane_data Y cyc teg rest
                     (AList.update lane t ls, allocated_green_sum + green_time t))))"

definition optimize_signals ::
  "TrafficSignalOptimizer \<Rightarrow> lane_counts \<Rightarrow> py_error + results" where
  "optimize_signals self lcs =
     (case flow_loop self lcs ([], 0) of
        Inl e \<Rightarrow> Inl e
      | Inr (lane_data, Y) \<Rightarrow>
          (case optimal_cycle self Y of
             Inl e \<Rightarrow> Inl e
           | Inr oc \<Rightarrow>
               (let L = total_lost_time self;
                    cyc = clamp_cycle self oc;
                    total_effective_green = cyc - L
                in case alloc_loop self lane_data Y cyc total_effective_green
                          (map fst lcs) ([], 0) of
                     Inl e \<Rightarrow> Inl e
                   | Inr (ls, allocated_green_sum) \<Rightarrow>
                       Inr \<lparr> cycle_time = cyc,
                             lanes = ls,
                             saturation_degree = Y,
                             actual_cycle_time = allocated_green_sum + L \<rparr>)))"


subsection \<open>Closed forms used in the proofs\<close>

text \<open>The flow ratio of one lane and the saturation sum of a request.\<close>

definition lane_flow :: "TrafficSignalOptimizer \<Rightarrow> counts \<Rightarrow> real" where
  "lane_flow self cs = calculate_traffic_density self cs / saturation_flow self"

definition saturation_sum :: "TrafficSignalOptimizer \<Rightarrow> lane_counts \<Rightarrow> real" where
  "saturation_sum self lcs = (\<Sum>(lane, cs) \<leftarrow> lcs. lane_flow self cs)"

definition lane_datum_of :: "TrafficSignalOptimizer \<Rightarrow> counts \<Rightarrow> lane_datum" where
  "lane_datum_of self cs =
     \<lparr> ld_pcu = calculate_traffic_density self cs, ld_y = lane_flow self cs \<rparr>"

text \<open>The value of Webster's formula and the nominal cycle, where no division fails.\<close>

definition optimal_cycle_val :: "TrafficSignalOptimizer \<Rightarrow> real \<Rightarrow> real" where
  "optimal_cycle_val self Y =
     (if 0 < min Y (95 / 100)
      then (15 / 10 * of_int (total_lost_time self) + 5) / (1 - min Y (95 / 100))
      else of_int (min_cycle_time self))"

definition nominal_cycle :: "TrafficSignalOptimizer \<Rightarrow> real \<Rightarrow> int" where
  "nominal_cycle self Y = clamp_cycle self (optimal_cycle_val self Y)"

definition raw_green_val :: "real \<Rightarrow> real \<Rightarrow> int \<Rightarrow> real" where
  "raw_green_val yv Y teg = (if 0 < Y then yv / Y * of_int teg else of_int teg / 4)"

text \<open>The timing of one lane, given the saturation sum of the whole request.\<close>

definition lane_result :: "TrafficSignalOptimizer \<Rightarrow> real \<Rightarrow> counts \<Rightarrow> lane_timing" where
  "lane_result self Y cs =
     lane_entry self (nominal_cycle self Y) (lane_datum_of self cs)
       (raw_green_val (lane_flow self cs) Y (nominal_cycle self Y - total_lost_time self))"

text \<open>The sum of the green times of a result.\<close>

definition green_sum :: "(string \<times> lane_timing) list \<Rightarrow> int" where
  "green_sum ls = (\<Sum>(lane, t) \<leftarrow> ls. green_time t)"

text \<open>Every count of every lane is zero (a lane without any category included).\<close>

definition all_counts_zero :: "lane_counts \<Rightarrow> bool" where
  "all_counts_zero lcs = list_all (\<lambda>(lane, cs). list_all (\<lambda>(vt, c). c = 0) cs) lcs"

section \<open>Density\<close>




section \<open>The two loops and the closed form of the result\<close>


lemma update_fresh: "k \<notin> fst ` set al \<Longrightarrow> AList.update k v al = al @ [(k, v)]"
  by (induction al) auto

lemma flow_loop_Inr:
  "saturation_flow self \<noteq> 0 \<Longrightarrow>
   \<exists>ld'. flow_loop self lcs (ld, Y) = Inr (ld', Y + saturation_sum self lcs)
      \<and> map_of ld' = map_of ld ++ map_of (rev (map (\<lambda>(lane, cs). (lane, lane_datum_of self cs)) lcs))"
proof (induction lcs arbitrary: ld Y)
  case Nil
  then show ?case by (simp add: saturation_sum_def)
next
  case (Cons p rest)
  obtain lane cs where p: "p = (lane, cs)" by (cases p)
  let ?d = "lane_datum_of self cs"
  from Cons.IH [OF Cons.prems, of "AList.update lane ?d ld" "Y + lane_flow self cs"]
  obtain ld' where
    run: "flow_loop self rest (AList.update lane ?d ld, Y + lane_flow self cs)
            = Inr (ld', Y + lane_flow self cs + saturation_sum self rest)"
    and look: "map_of ld' = map_of (AList.update lane ?d ld)
            ++ map_of (rev (map (\<lambda>(lane, cs). (lane, lane_datum_of self cs)) rest))"
    by blast
  have "flow_loop self (p # rest) (ld, Y) = Inr (ld', Y + saturation_sum self (p # rest))"
    using run Cons.prems
    by (simp add: p py_truediv_def lane_datum_of_def lane_flow_def saturation_sum_def add.assoc)
  moreover have "map_of ld' = map_of ld
      ++ map_of (rev (map (\<lambda>(lane, cs). (lane, lane_datum_of self cs)) (p # rest)))"
    using look by (simp add: p update_conv')
  ultimately show ?case by blast
qed

lemma raw_green_Inr: "raw_green yv Y teg = Inr (raw_green_val yv Y teg)"
  by (simp add: raw_green_def raw_green_val_def py_truediv_def)

lemma alloc_loop_closed:
  assumes "\<forall>k \<in> set keys. map_of ld k = Some (dat k)"
    and "distinct keys" and "set keys \<inter> fst ` set ls = {}"
  shows "alloc_loop self ld Y cyc teg keys (ls, s) =
     Inr (ls @ map (\<lambda>k. (k, lane_entry self cyc (dat k) (raw_green_val (ld_y (dat k)) Y teg))) keys,
          s + (\<Sum>k \<leftarrow> keys. green_time (lane_entry self cyc (dat k) (raw_green_val (ld_y (dat k)) Y teg))))"
  using assms
proof (induction keys arbitrary: ls s)
  case Nil
  then show ?case by simp
next
  case (Cons k rest)
  let ?t = "lane_entry self cyc (dat k) (raw_green_val (ld_y (dat k)) Y teg)"
  have fresh: "k \<notin> fst ` set ls" using Cons.prems(3) by auto
  have upd: "AList.update k ?t ls = ls @ [(k, ?t)]" using fresh by (rule update_fresh)
  have disj: "set rest \<inter> fst ` set (ls @ [(k, ?t)]) = {}"
    using Cons.prems(2,3) by auto
  have "alloc_loop self ld Y cyc teg rest (ls @ [(k, ?t)], s + green_time ?t) = 
     Inr ((ls @ [(k, ?t)]) @ map (\<lambda>k. (k, lane_entry self cyc (dat k) (raw_green_val (ld_y (dat k)) Y teg))) rest,
          (s + green_time ?t) + (\<Sum>k \<leftarrow> rest. green_time (lane_entry self cyc (dat k) (raw_green_val (ld_y (dat k)) Y teg))))"
    using Cons.prems(1,2) disj by (intro Cons.IH) auto
  then show ?case
    using Cons.prems(1) by (simp add: py_getitem_def raw_green_Inr upd Let_def add.assoc)
qed

lemma optimal_cycle_Inr: "optimal_cycle self Y = Inr (optimal_cycle_val self Y)"
proof -
  have "1 - min Y (95 / 100) \<noteq> 0" by (simp add: min_def)
  then show ?thesis
    by (simp add: optimal_cycle_def optimal_cycle_val_def py_truediv_def Let_def)
qed


lemma flow_loop_lookup:
  assumes run: "flow_loop self lcs ([], 0) = Inr (ld', Y')"
    and sf: "saturation_flow self \<noteq> 0"
    and d: "distinct (map fst lcs)" and m: "(lane, cs) \<in> set lcs"
  shows "map_of ld' lane = Some (lane_datum_of self cs)"
proof -
  let ?al = "rev (map (\<lambda>(lane, cs). (lane, lane_datum_of self cs)) lcs)"
  from flow_loop_Inr [OF sf, of lcs "[]" 0] run
  have look: "map_of ld' = map_of ?al" by auto
  have "map fst ?al = rev (map fst lcs)"
    by (simp add: rev_map case_prod_unfold comp_def)
  then have "distinct (map fst ?al)" using d by simp
  moreover have "(lane, lane_datum_of self cs) \<in> set ?al" using m by force
  ultimately have "map_of ?al lane = Some (lane_datum_of self cs)"
    by (rule map_of_is_SomeI)
  with look show ?thesis by simp
qed

lemma optimize_signals_closed:
  assumes sf: "saturation_flow self \<noteq> 0" and d: "distinct (map fst lcs)"
  shows "optimize_signals self lcs =
     Inr \<lparr> cycle_time = nominal_cycle self (saturation_sum self lcs),
           lanes = map (\<lambda>(lane, cs). (lane, lane_result self (saturation_sum self lcs) cs)) lcs,
           saturation_degree = saturation_sum self lcs,
           actual_cycle_time =
             green_sum (map (\<lambda>(lane, cs). (lane, lane_result self (saturation_sum self lcs) cs)) lcs)
               + total_lost_time self \<rparr>"
proof -
  let ?Y = "saturation_sum self lcs"
  let ?cyc = "nominal_cycle self ?Y"
  let ?teg = "?cyc - total_lost_time self"
  from flow_loop_Inr [OF sf, of lcs "[]" 0]
  obtain ld' where run: "flow_loop self lcs ([], 0) = Inr (ld', ?Y)" by auto
  define dat where "dat k = the (map_of ld' k)" for k
  have dat: "map_of ld' lane = Some (dat lane) \<and> dat lane = lane_datum_of self cs"
    if "(lane, cs) \<in> set lcs" for lane cs
    using flow_loop_lookup [OF run sf d that] by (simp add: dat_def)
  have pres: "\<forall>k \<in> set (map fst lcs). map_of ld' k = Some (dat k)"
    using dat by auto
  have entries: "map (\<lambda>k. (k, lane_entry self ?cyc (dat k) (raw_green_val (ld_y (dat k)) ?Y ?teg)))
         (map fst lcs) = map (\<lambda>(lane, cs). (lane, lane_result self ?Y cs)) lcs"
    using dat by (auto simp: lane_result_def lane_datum_of_def)
  have greens: "(\<Sum>k \<leftarrow> map fst lcs.
         green_time (lane_entry self ?cyc (dat k) (raw_green_val (ld_y (dat k)) ?Y ?teg)))
       = green_sum (map (\<lambda>(lane, cs). (lane, lane_result self ?Y cs)) lcs)"
    unfolding green_sum_def entries [symmetric] by (simp add: comp_def)
  have alloc: "alloc_loop self ld' ?Y ?cyc ?teg (map fst lcs) ([], 0) =
      Inr (map (\<lambda>(lane, cs). (lane, lane_result self ?Y cs)) lcs,
           green_sum (map (\<lambda>(lane, cs). (lane, lane_result self ?Y cs)) lcs))"
    using alloc_loop_closed [OF pres d, of "[]" self ?Y ?cyc ?teg 0] entries greens by simp
  show ?thesis
    by (simp add: optimize_signals_def run optimal_cycle_Inr Let_def nominal_cycle_def [symmetric] alloc)
qed

lemma alloc_loop_total:
  "\<forall>k \<in> set keys. map_of ld k \<noteq> None \<Longrightarrow> \<exists>r. alloc_loop self ld Y cyc teg keys acc = Inr r"
proof (induction keys arbitrary: acc)
  case Nil
  then show ?case by (cases acc) simp
next
  case (Cons k rest)
  obtain ls s where acc: "acc = (ls, s)" by (cases acc)
  from Cons.prems obtain dv where dv: "map_of ld k = Some dv" by auto
  from Cons.prems have "\<forall>k \<in> set rest. map_of ld k \<noteq> None" by simp
  from Cons.IH [OF this] show ?case
    by (simp add: acc py_getitem_def dv raw_green_Inr Let_def)
qed

lemma optimize_signals_header:
  assumes sf: "saturation_flow self \<noteq> 0"
  shows "\<exists>ls s. optimize_signals self lcs =
     Inr \<lparr> cycle_time = nominal_cycle self (saturation_sum self lcs), lanes = ls,
           saturation_degree = saturation_sum self lcs,
           actual_cycle_time = s + total_lost_time self \<rparr>"
proof -
  let ?al = "rev (map (\<lambda>(lane, cs). (lane, lane_datum_of self cs)) lcs)"
  from flow_loop_Inr [OF sf, of lcs "[]" 0]
  obtain ld' where run: "flow_loop self lcs ([], 0) = Inr (ld', saturation_sum self lcs)"
    and look: "map_of ld' = map_of ?al" by auto
  have keys: "fst ` set ?al = fst ` set lcs" by force
  have "\<forall>k \<in> set (map fst lcs). map_of ld' k \<noteq> None"
    unfolding look map_of_eq_None_iff keys by simp
  from alloc_loop_total [OF this]
  obtain r where "alloc_loop self ld' (saturation_sum self lcs)
      (nominal_cycle self (saturation_sum self lcs))
      (nominal_cycle self (saturation_sum self lcs) - total_lost_time self) (map fst lcs) ([], 0) = Inr r"
    by blast
  then show ?thesis
    by (cases r) (simp add: optimize_signals_def run optimal_cycle_Inr Let_def nominal_cycle_def [symmetric])
qed

lemma init_saturation_flow: "saturation_flow TrafficSignalOptimizer_init \<noteq> 0"
  by (simp add: TrafficSignalOptimizer_init_def)


lemma green_sum_lower:
  "\<forall>(lane, t) \<in> set ls. m \<le> green_time t \<Longrightarrow> m * int (length ls) \<le> green_sum ls"
proof (induction ls)
  case Nil
  then show ?case by (simp add: green_sum_def)
next
  case (Cons p rest)
  obtain lane t where p: "p = (lane, t)" by (cases p)
  from Cons.prems have "m \<le> green_time t" by (simp add: p)
  moreover from Cons have "m * int (length rest) \<le> green_sum rest" by simp
  ultimately show ?case by (simp add: p green_sum_def algebra_simps)
qed

lemma lane_result_fields:
  "min_green_time self \<le> green_time (lane_result self Y cs)"
  "yellow_time (lane_result self Y cs) = lost_time_per_phase self"
  "red_time (lane_result self Y cs)
     = nominal_cycle self Y - green_time (lane_result self Y cs) - lost_time_per_phase self"
  by (simp_all add: lane_result_def lane_entry_def Let_def)

lemma density_zero:
  "list_all (\<lambda>(vt, c). c = 0) cs \<Longrightarrow> density_loop self cs acc = acc"
  by (induction cs arbitrary: acc) (auto simp: Let_def)

lemma saturation_sum_zero:
  "all_counts_zero lcs \<Longrightarrow> saturation_sum self lcs = 0"
  unfolding all_counts_zero_def saturation_sum_def
  by (induction lcs) (auto simp: lane_flow_def calculate_traffic_density_def density_zero)

lemma nominal_cycle_zero: "nominal_cycle TrafficSignalOptimizer_init 0 = 60"
  by (simp add: nominal_cycle_def optimal_cycle_val_def clamp_cycle_def py_int_def
      TrafficSignalOptimizer_init_def)

lemma init_fields:
  "saturation_flow TrafficSignalOptimizer_init = 30"
  "lost_time_per_phase TrafficSignalOptimizer_init = 4"
  "min_green_time TrafficSignalOptimizer_init = 10"
  "min_cycle_time TrafficSignalOptimizer_init = 60"
  "max_cycle_time TrafficSignalOptimizer_init = 150"
  "total_lost_time TrafficSignalOptimizer_init = 16"
  by (simp_all add: TrafficSignalOptimizer_init_def total_lost_time_def)

lemma py_round_eleven: "py_round 11 = 11"
  by (simp add: py_round_def Let_def)

lemma green_time_zero_demand:
  "green_time (lane_result TrafficSignalOptimizer_init 0 cs) = 11"
  by (simp add: lane_result_def lane_entry_def raw_green_val_def nominal_cycle_zero
      init_fields py_round_eleven Let_def)

lemma py_round_lower: "x - 1 / 2 \<le> of_int (py_round x)"
proof -
  have b: "x < of_int \<lfloor>x\<rfloor> + 1" by linarith
  consider "x - of_int \<lfloor>x\<rfloor> < 1 / 2" | "1 / 2 < x - of_int \<lfloor>x\<rfloor>"
    | "x - of_int \<lfloor>x\<rfloor> = 1 / 2" by linarith
  then show ?thesis
  proof cases
    case 1
    then have "py_round x = \<lfloor>x\<rfloor>" by (simp add: py_round_def Let_def)
    with 1 show ?thesis by simp
  next
    case 2
    then have "py_round x = \<lfloor>x\<rfloor> + 1" by (simp add: py_round_def Let_def)
    with b show ?thesis by linarith
  next
    case 3
    then have "py_round x = \<lfloor>x\<rfloor> \<or> py_round x = \<lfloor>x\<rfloor> + 1"
      by (simp add: py_round_def Let_def)
    with 3 show ?thesis by (elim disjE) linarith+
  qed
qed

lemma green_time_lower_raw:
  "raw_green_val (lane_flow self cs) Y (nominal_cycle self Y - total_lost_time self) - 1 / 2
     \<le> of_int (green_time (lane_result self Y cs))"
proof -
  let ?raw = "raw_green_val (lane_flow self cs) Y (nominal_cycle self Y - total_lost_time self)"
  have "py_round ?raw \<le> green_time (lane_result self Y cs)"
    by (simp add: lane_result_def lane_entry_def Let_def)
  then have "(of_int (py_round ?raw) :: real) \<le> of_int (green_time (lane_result self Y cs))"
    by (simp only: of_int_le_iff)
  with py_round_lower [of ?raw] show ?thesis by linarith
qed

lemma green_sum_lower_share:
  assumes "0 < Y"
  shows "saturation_sum self lcs / Y * of_int (nominal_cycle self Y - total_lost_time self)
           - of_nat (length lcs) / 2
     \<le> of_int (green_sum (map (\<lambda>(lane, cs). (lane, lane_result self Y cs)) lcs))"
proof (induction lcs)
  case Nil
  then show ?case by (simp add: saturation_sum_def green_sum_def)
next
  case (Cons p rest)
  obtain lane cs where p: "p = (lane, cs)" by (cases p)
  let ?teg = "nominal_cycle self Y - total_lost_time self"
  have split_sum: "saturation_sum self (p # rest) / Y * of_int ?teg
      = lane_flow self cs / Y * of_int ?teg + saturation_sum self rest / Y * of_int ?teg"
    by (simp add: p saturation_sum_def add_divide_distrib distrib_right)
  have raw: "raw_green_val (lane_flow self cs) Y ?teg = lane_flow self cs / Y * of_int ?teg"
    using assms by (simp add: raw_green_val_def)
  have split_green: "green_sum (map (\<lambda>(lane, cs). (lane, lane_result self Y cs)) (p # rest))
      = green_time (lane_result self Y cs)
        + green_sum (map (\<lambda>(lane, cs). (lane, lane_result self Y cs)) rest)"
    by (simp add: p green_sum_def)
  have len: "(of_nat (length (p # rest)) :: real) / 2 = 1 / 2 + of_nat (length rest) / 2"
    by (simp add: add_divide_distrib)
  show ?case
    unfolding split_sum split_green len
    using green_time_lower_raw [of self cs Y] Cons.IH raw by simp
qed

lemma actual_cycle_lower_share:
  assumes "0 < saturation_sum self lcs"
  shows "2 * nominal_cycle self (saturation_sum self lcs) - int (length lcs)
     \<le> 2 * (green_sum (map (\<lambda>(lane, cs). (lane, lane_result self (saturation_sum self lcs) cs)) lcs)
            + total_lost_time self)"
proof -
  let ?Y = "saturation_sum self lcs"
  let ?g = "green_sum (map (\<lambda>(lane, cs). (lane, lane_result self ?Y cs)) lcs)"
  have "?Y / ?Y = 1" using assms by simp
  with green_sum_lower_share [OF assms, of self lcs]
  have "real_of_int (nominal_cycle self ?Y - total_lost_time self) - of_nat (length lcs) / 2
      \<le> of_int ?g" by simp
  then have "real_of_int (2 * nominal_cycle self ?Y - int (length lcs))
      \<le> of_int (2 * (?g + total_lost_time self))" by simp
  then show ?thesis by (simp only: of_int_le_iff)
qed

text \<open>The definitions unfolded when a request is evaluated on concrete counts.\<close>

lemmas optimizer_eval =
  optimize_signals_def calculate_traffic_density_def TrafficSignalOptimizer_init_def
  py_get_def py_truediv_def optimal_cycle_def total_lost_time_def clamp_cycle_def py_int_def
  raw_green_def lane_entry_def py_round_def py_round_ndigits_def py_getitem_def Let_def

lemmas saturation_eval =
  saturation_sum_def lane_flow_def calculate_traffic_density_def py_get_def
  TrafficSignalOptimizer_init_def

section \<open>The reconciled cycle length\<close>

text \<open>
  C1, as the spec states it, fails: the actual cycle time can be smaller than the nominal
  cycle time. Four lanes with 2, 8, 8 and 8 cars give the saturation sum 13/15 and the
  nominal cycle 150; the raw greens 134/13 and 536/13 round down to 10 and 41, so the
  greens add up to 133 and the actual cycle time is 149.
\<close>

theorem actual_cycle_below_nominal_counterexample:
  "optimize_signals TrafficSignalOptimizer_init
     [(''North'', [(''car'', 2)]), (''South'', [(''car'', 8)]),
      (''East'', [(''car'', 8)]), (''West'', [(''car'', 8)])] =
   Inr \<lparr> cycle_time = 150,
         lanes = [(''North'', \<lparr> green_time = 10, red_time = 136, yellow_time = 4,
                                density_score = 2, flow_ratio = 67 / 1000 \<rparr>),
                  (''South'', \<lparr> green_time = 41, red_time = 105, yellow_time = 4,
                                density_score = 8, flow_ratio = 267 / 1000 \<rparr>),
                  (''East'', \<lparr> green_time = 41, red_time = 105, yellow_time = 4,
                                density_score = 8, flow_ratio = 267 / 1000 \<rparr>),
                  (''West'', \<lparr> green_time = 41, red_time = 105, yellow_time = 4,
                                density_score = 8, flow_ratio = 267 / 1000 \<rparr>)],
         saturation_degree = 13 / 15,
         actual_cycle_time = 149 \<rparr>"
  by (simp add: optimizer_eval)

text \<open>
  C1, amended: for every request (a dictionary, so with distinct lane identifiers) the
  optimizer returns a result whose actual cycle time is the sum of the green times of its
  lanes plus the total lost time, the total lost time being four times the lost time per
  phase. The actual cycle time is at least the minimum green time for every lane plus the
  total lost time; when the saturation sum is positive it is at least the nominal cycle
  time minus half a second per lane, the most that rounding to the nearest integer loses.
\<close>

theorem actual_cycle_is_green_sum_plus_lost_time:
  assumes "saturation_flow self \<noteq> 0" and "distinct (map fst lcs)"
  shows "\<exists>r. optimize_signals self lcs = Inr r
     \<and> actual_cycle_time r = green_sum (lanes r) + total_lost_time self
     \<and> total_lost_time self = 4 * lost_time_per_phase self
     \<and> min_green_time self * int (length lcs) + total_lost_time self \<le> actual_cycle_time r
     \<and> (0 < saturation_degree r
          \<longrightarrow> 2 * cycle_time r - int (length lcs) \<le> 2 * actual_cycle_time r)"
proof -
  let ?ls = "map (\<lambda>(lane, cs). (lane, lane_result self (saturation_sum self lcs) cs)) lcs"
  have "\<forall>(lane, t) \<in> set ?ls. min_green_time self \<le> green_time t"
    by (auto simp: lane_result_fields)
  from green_sum_lower [OF this]
  have "min_green_time self * int (length lcs) \<le> green_sum ?ls" by simp
  then show ?thesis
    using actual_cycle_lower_share [of self lcs]
    by (simp add: optimize_signals_closed [OF assms] total_lost_time_def)
qed

theorem actual_cycle_is_green_sum_plus_lost_time_witness:
  "saturation_flow TrafficSignalOptimizer_init \<noteq> 0
   \<and> distinct (map fst [(''North'', [(''car'', 1 :: int)])])
   \<and> (\<exists>r. optimize_signals TrafficSignalOptimizer_init [(''North'', [(''car'', 1)])] = Inr r
        \<and> actual_cycle_time r = green_sum (lanes r) + total_lost_time TrafficSignalOptimizer_init
        \<and> 0 < saturation_degree r
        \<and> 2 * cycle_time r - 1 \<le> 2 * actual_cycle_time r)"
proof -
  have h1: "saturation_flow TrafficSignalOptimizer_init \<noteq> 0" by (rule init_saturation_flow)
  have h2: "distinct (map fst [(''North'', [(''car'', 1 :: int)])])" by simp
  have pos: "0 < saturation_sum TrafficSignalOptimizer_init [(''North'', [(''car'', 1)])]"
    by (simp add: saturation_eval)
  from optimize_signals_header [OF h1, of "[(''North'', [(''car'', 1)])]"]
  have sat: "optimize_signals TrafficSignalOptimizer_init [(''North'', [(''car'', 1)])] = Inr r
      \<Longrightarrow> 0 < saturation_degree r" for r
    using pos by auto
  from actual_cycle_is_green_sum_plus_lost_time [OF h1 h2]
  show ?thesis using h1 sat by auto
qed

section \<open>The total lost time\<close>

text \<open>
  C2, as the spec states it, fails: the total lost time does not follow the number of
  lanes. A request with the single lane North holding one car has one lane, so the claim
  gives a total lost time of 4; the optimizer uses 16: the nominal cycle 60 leaves the
  effective green 44, all of it for North, and the actual cycle time is 44 + 16.
\<close>

theorem total_lost_time_one_lane_counterexample:
  "optimize_signals TrafficSignalOptimizer_init [(''North'', [(''car'', 1)])] =
     Inr \<lparr> cycle_time = 60,
           lanes = [(''North'', \<lparr> green_time = 44, red_time = 12, yellow_time = 4,
                                  density_score = 1, flow_ratio = 33 / 1000 \<rparr>)],
           saturation_degree = 1 / 30,
           actual_cycle_time = 60 \<rparr>
   \<and> total_lost_time TrafficSignalOptimizer_init = 16
   \<and> lost_time_per_phase TrafficSignalOptimizer_init
         * int (length [(''North'', [(''car'', 1 :: int)])]) = 4"
  by (simp add: optimizer_eval)

text \<open>
  C2, amended: the total lost time is the lost time per phase times the fixed number of
  four phases, whatever the number of lanes of the request: 16 seconds for the configured
  lost time of 4. It is the difference between the actual cycle time and the sum of the
  green times of every result, and equals the lost time per phase times the number of
  lanes exactly when the request has four lanes.
\<close>

theorem total_lost_time_is_four_phases:
  assumes "distinct (map fst lcs)"
  shows "total_lost_time TrafficSignalOptimizer_init = 16
     \<and> (\<exists>r. optimize_signals TrafficSignalOptimizer_init lcs = Inr r
          \<and> actual_cycle_time r - green_sum (lanes r) = 16
          \<and> (actual_cycle_time r - green_sum (lanes r)
                = lost_time_per_phase TrafficSignalOptimizer_init * int (length lcs)
              \<longleftrightarrow> length lcs = 4))"
  by (simp add: optimize_signals_closed [OF init_saturation_flow assms] init_fields)

theorem total_lost_time_is_four_phases_witness:
  "distinct (map fst [(''North'', [(''car'', 1 :: int)]), (''South'', [(''bus'', 2)])])
   \<and> total_lost_time TrafficSignalOptimizer_init = 16
   \<and> (\<exists>r. optimize_signals TrafficSignalOptimizer_init
              [(''North'', [(''car'', 1)]), (''South'', [(''bus'', 2)])] = Inr r
        \<and> actual_cycle_time r - green_sum (lanes r) = 16
        \<and> actual_cycle_time r - green_sum (lanes r)
             \<noteq> lost_time_per_phase TrafficSignalOptimizer_init
                 * int (length [(''North'', [(''car'', 1 :: int)]), (''South'', [(''bus'', 2)])]))"
proof -
  have h: "distinct (map fst [(''North'', [(''car'', 1 :: int)]), (''South'', [(''bus'', 2)])])"
    by simp
  from total_lost_time_is_four_phases [OF h] show ?thesis using h by auto
qed

section \<open>Oversaturation\<close>



section \<open>Input validation\<close>



section \<open>The minimum green time\<close>

text \<open>
  C5: every lane of every result has a green time of at least the minimum green time.
  This holds for every request, whether its counts are non-negative or not.
\<close>

theorem green_time_at_least_min_green:
  assumes "saturation_flow self \<noteq> 0" and "distinct (map fst lcs)"
  shows "\<exists>r. optimize_signals self lcs = Inr r \<and> length (lanes r) = length lcs
     \<and> (\<forall>(lane, t) \<in> set (lanes r). min_green_time self \<le> green_time t)"
  by (auto simp: optimize_signals_closed [OF assms] lane_result_fields)

theorem green_time_at_least_min_green_witness:
  "saturation_flow TrafficSignalOptimizer_init \<noteq> 0
   \<and> distinct (map fst [(''North'', [(''car'', 9 :: int)]), (''South'', [(''motorcycle'', 1)])])
   \<and> (\<exists>r. optimize_signals TrafficSignalOptimizer_init
              [(''North'', [(''car'', 9)]), (''South'', [(''motorcycle'', 1)])] = Inr r
        \<and> map (\<lambda>(lane, t). green_time t) (lanes r) = [42, 10]
        \<and> (\<forall>(lane, t) \<in> set (lanes r).
              min_green_time TrafficSignalOptimizer_init \<le> green_time t))"
proof -
  have h1: "saturation_flow TrafficSignalOptimizer_init \<noteq> 0" by (rule init_saturation_flow)
  have h2: "distinct (map fst [(''North'', [(''car'', 9 :: int)]), (''South'', [(''motorcycle'', 1)])])"
    by simp
  have ev: "optimize_signals TrafficSignalOptimizer_init
              [(''North'', [(''car'', 9)]), (''South'', [(''motorcycle'', 1)])] =
     Inr \<lparr> cycle_time = 60,
           lanes = [(''North'', \<lparr> green_time = 42, red_time = 14, yellow_time = 4,
                                  density_score = 9, flow_ratio = 3 / 10 \<rparr>),
                    (''South'', \<lparr> green_time = 10, red_time = 46, yellow_time = 4,
                                  density_score = 1 / 2, flow_ratio = 17 / 1000 \<rparr>)],
           saturation_degree = 19 / 60,
           actual_cycle_time = 68 \<rparr>"
    by (simp add: optimizer_eval)
  from green_time_at_least_min_green [OF h1 h2] show ?thesis using h1 ev by auto
qed

section \<open>Repeated calls\<close>


section \<open>Zero demand\<close>

text \<open>
  C8, as the spec states it, fails: with zero demand a lane does not receive the
  effective green divided by the number of lanes. Two lanes without vehicles give the
  cycle time 60 and the effective green 44; an equal share between the two lanes would be
  22 each, and each lane receives 11.
\<close>

theorem zero_demand_two_lanes_counterexample:
  "optimize_signals TrafficSignalOptimizer_init [(''North'', [(''car'', 0)]), (''South'', [])] =
     Inr \<lparr> cycle_time = 60,
           lanes = [(''North'', \<lparr> green_time = 11, red_time = 45, yellow_time = 4,
                                  density_score = 0, flow_ratio = 0 \<rparr>),
                    (''South'', \<lparr> green_time = 11, red_time = 45, yellow_time = 4,
                                  density_score = 0, flow_ratio = 0 \<rparr>)],
           saturation_degree = 0,
           actual_cycle_time = 38 \<rparr>"
  by (simp add: optimizer_eval)

text \<open>
  C8, amended: when every count of every lane is zero, the saturation degree of the
  result is 0, its cycle time is the minimum cycle time, and every lane receives the same
  green time: the effective green divided by the fixed 4, rounded and subject to the
  minimum green time, that is 11 seconds. The share is the effective green divided by the
  number of lanes only for a request with four lanes.
\<close>

theorem zero_demand_min_cycle_quarter_share:
  assumes "distinct (map fst lcs)" and "all_counts_zero lcs"
  shows "\<exists>r. optimize_signals TrafficSignalOptimizer_init lcs = Inr r
     \<and> saturation_degree r = 0
     \<and> cycle_time r = min_cycle_time TrafficSignalOptimizer_init
     \<and> length (lanes r) = length lcs
     \<and> (\<forall>(lane, t) \<in> set (lanes r).
          green_time t = max (min_green_time TrafficSignalOptimizer_init)
             (py_round (of_int (cycle_time r - total_lost_time TrafficSignalOptimizer_init) / 4))
          \<and> green_time t = 11)"
proof -
  have "py_round (of_int (60 - 16) / 4) = 11" by (simp add: py_round_def Let_def)
  then show ?thesis
    by (auto simp: optimize_signals_closed [OF init_saturation_flow assms(1)]
        saturation_sum_zero [OF assms(2)] nominal_cycle_zero init_fields green_time_zero_demand)
qed

theorem zero_demand_min_cycle_quarter_share_witness:
  "distinct (map fst [(''North'', [(''car'', 0 :: int), (''bus'', 0)]), (''South'', []),
                      (''East'', [(''truck'', 0)])])
   \<and> all_counts_zero [(''North'', [(''car'', 0), (''bus'', 0)]), (''South'', []),
                       (''East'', [(''truck'', 0)])]
   \<and> (\<exists>r. optimize_signals TrafficSignalOptimizer_init
              [(''North'', [(''car'', 0), (''bus'', 0)]), (''South'', []),
               (''East'', [(''truck'', 0)])] = Inr r
        \<and> saturation_degree r = 0 \<and> cycle_time r = 60 \<and> length (lanes r) = 3
        \<and> (\<forall>(lane, t) \<in> set (lanes r). green_time t = 11))"
proof -
  have h1: "distinct (map fst [(''North'', [(''car'', 0 :: int), (''bus'', 0)]), (''South'', []),
                      (''East'', [(''truck'', 0)])])" by simp
  have h2: "all_counts_zero [(''North'', [(''car'', 0), (''bus'', 0)]), (''South'', []),
                       (''East'', [(''truck'', 0)])]" by (simp add: all_counts_zero_def)
  from zero_demand_min_cycle_quarter_share [OF h1 h2] show ?thesis
    using h1 h2 by (auto simp: init_fields)
qed

section \<open>The red time\<close>

text \<open>
  C9: in every lane of every result the yellow time is the lost time per phase, and the
  red time is the nominal cycle time of the result minus the green time minus the yellow
  time, an integer that is not clamped: it is negative when the green time exceeds the
  nominal cycle.
\<close>

theorem red_time_from_nominal_cycle:
  assumes "saturation_flow self \<noteq> 0" and "distinct (map fst lcs)"
  shows "\<exists>r. optimize_signals self lcs = Inr r \<and> length (lanes r) = length lcs
     \<and> (\<forall>(lane, t) \<in> set (lanes r).
          yellow_time t = lost_time_per_phase self
          \<and> red_time t = cycle_time r - green_time t - yellow_time t)"
  by (auto simp: optimize_signals_closed [OF assms] lane_result_fields)

theorem red_time_from_nominal_cycle_witness:
  "saturation_flow TrafficSignalOptimizer_init \<noteq> 0
   \<and> distinct (map fst [(''North'', [(''car'', 60 :: int)]), (''South'', [(''car'', - 30)])])
   \<and> (\<exists>r. optimize_signals TrafficSignalOptimizer_init
              [(''North'', [(''car'', 60)]), (''South'', [(''car'', - 30)])] = Inr r
        \<and> cycle_time r = 150 \<and> actual_cycle_time r = 294
        \<and> map (\<lambda>(lane, t). (green_time t, red_time t)) (lanes r) = [(268, - 122), (10, 136)]
        \<and> (\<forall>(lane, t) \<in> set (lanes r).
              yellow_time t = lost_time_per_phase TrafficSignalOptimizer_init
              \<and> red_time t = cycle_time r - green_time t - yellow_time t))"
proof -
  have h1: "saturation_flow TrafficSignalOptimizer_init \<noteq> 0" by (rule init_saturation_flow)
  have h2: "distinct (map fst [(''North'', [(''car'', 60 :: int)]), (''South'', [(''car'', - 30)])])"
    by simp
  have ev: "optimize_signals TrafficSignalOptimizer_init
              [(''North'', [(''car'', 60)]), (''South'', [(''car'', - 30)])] =
     Inr \<lparr> cycle_time = 150,
           lanes = [(''North'', \<lparr> green_time = 268, red_time = - 122, yellow_time = 4,
                                  density_score = 60, flow_ratio = 2 \<rparr>),
                    (''South'', \<lparr> green_time = 10, red_time = 136, yellow_time = 4,
                                  density_score = - 30, flow_ratio = - 1 \<rparr>)],
           saturation_degree = 1,
           actual_cycle_time = 294 \<rparr>"
    by (simp add: optimizer_eval)
  from red_time_from_nominal_cycle [OF h1 h2] show ?thesis using h1 ev by auto
qed

section \<open>The lanes of the result\<close>

text \<open>
  C10: the lanes of the result are the lanes of the request, in the same order: no lane
  is dropped and none is added.
\<close>

theorem lanes_keys_equal_input_keys:
  assumes "saturation_flow self \<noteq> 0" and "distinct (map fst lcs)"
  shows "\<exists>r. optimize_signals self lcs = Inr r \<and> map fst (lanes r) = map fst lcs"
  by (simp add: optimize_signals_closed [OF assms] case_prod_unfold comp_def)

theorem lanes_keys_equal_input_keys_witness:
  "saturation_flow TrafficSignalOptimizer_init \<noteq> 0
   \<and> distinct (map fst [(''West'', [(''car'', 3 :: int)]), (''East'', [])])
   \<and> (\<exists>r. optimize_signals TrafficSignalOptimizer_init
              [(''West'', [(''car'', 3)]), (''East'', [])] = Inr r
        \<and> map fst (lanes r) = [''West'', ''East''])"
proof -
  have h1: "saturation_flow TrafficSignalOptimizer_init \<noteq> 0" by (rule init_saturation_flow)
  have h2: "distinct (map fst [(''West'', [(''car'', 3 :: int)]), (''East'', [])])" by simp
  from lanes_keys_equal_input_keys [OF h1 h2] show ?thesis using h1 by auto
qed

end
